theory Spec2Isabelle
  imports Complex_Main "HOL-Library.Sublist"
begin

section \<open>JavaScript values used by the LLM service\<close>

text \<open>
  A thrown JavaScript error: the name of its class (\<open>Error\<close>, \<open>TypeError\<close>,
  \<open>ReferenceError\<close>, or the class of an SDK exception) and its \<open>message\<close>.
\<close>

datatype jsError = JsError (errName: string) (errMessage: string)

text \<open>\<open>String.prototype.includes\<close>: the argument occurs as a contiguous substring.\<close>

fun includes_str :: "string \<Rightarrow> string \<Rightarrow> bool" where
  "includes_str [] sub = (sub = [])"
| "includes_str (c # cs) sub = (prefix sub (c # cs) \<or> includes_str cs sub)"

text \<open>
  The message V8 gives to the \<open>TypeError\<close> raised by reading a property of \<open>undefined\<close>.
\<close>

definition typeErrorReading :: "string \<Rightarrow> jsError" where
  "typeErrorReading prop =
     JsError ''TypeError''
       (''Cannot read properties of undefined (reading '' @ [CHR 0x27] @ prop @ [CHR 0x27] @ '')'')"

section \<open>Requests, responses and the service object\<close>

record message =
  role :: string
  content :: string

text \<open>The argument of \<open>anthropic.messages.create\<close>; \<open>system = None\<close> is \<open>null\<close>.\<close>

record anthropicRequest =
  a_model :: string
  a_max_tokens :: int
  a_temperature :: rat
  a_system :: "string option"
  a_messages :: "message list"

text \<open>The argument of \<open>openai.chat.completions.create\<close>.\<close>

record openaiRequest =
  o_model :: string
  o_messages :: "message list"
  o_max_tokens :: int
  o_temperature :: rat

type_synonym usage = "(string \<times> nat) list"

text \<open>
  What the code reads of a backend response: the \<open>text\<close> of each element of
  \<open>response.content\<close> (\<open>message.content\<close> of each element of \<open>response.choices\<close>), and
  \<open>response.usage\<close>.
\<close>

record anthropicResponse =
  a_content :: "string list"
  a_usage :: usage

record openaiResponse =
  o_choices :: "string list"
  o_usage :: usage

text \<open>An outbound call to a backend, with the request object it was given.\<close>

datatype call = AnthropicCall anthropicRequest | OpenAICall openaiRequest

fun callProvider :: "call \<Rightarrow> string" where
  "callProvider (AnthropicCall req) = ''anthropic''"
| "callProvider (OpenAICall req) = ''openai''"

fun callModel :: "call \<Rightarrow> string" where
  "callModel (AnthropicCall req) = a_model req"
| "callModel (OpenAICall req) = o_model req"

fun callMaxTokens :: "call \<Rightarrow> int" where
  "callMaxTokens (AnthropicCall req) = a_max_tokens req"
| "callMaxTokens (OpenAICall req) = o_max_tokens req"

fun callTemperature :: "call \<Rightarrow> rat" where
  "callTemperature (AnthropicCall req) = a_temperature req"
| "callTemperature (OpenAICall req) = o_temperature req"

fun callMessages :: "call \<Rightarrow> message list" where
  "callMessages (AnthropicCall req) = a_messages req"
| "callMessages (OpenAICall req) = o_messages req"

text \<open>The object returned by \<open>generateWithAnthropic\<close> and \<open>generateWithOpenAI\<close>.\<close>

record generationResult =
  res_content :: string
  res_model :: string
  res_usage :: usage
  res_provider :: string

text \<open>
  The \<open>options\<close> argument. \<open>None\<close> is a property that is absent (\<open>undefined\<close>), which
  is when a destructuring default applies; for \<open>systemPrompt\<close>, whose default is
  \<open>null\<close>, \<open>None\<close> also stands for \<open>null\<close>.
\<close>

record options =
  opt_model :: "string option"
  opt_maxTokens :: "int option"
  opt_temperature :: "rat option"
  opt_systemPrompt :: "string option"
  opt_provider :: "string option"

text \<open>The three variables of \<open>process.env\<close> that the constructor reads.\<close>

record env =
  ANTHROPIC_API_KEY :: "string option"
  OPENAI_API_KEY :: "string option"
  DEFAULT_LLM_MODEL :: "string option"

text \<open>
  An SDK client is the function it computes from a request: it returns a response or
  throws. A client that was not created is \<open>None\<close> (\<open>this.anthropic\<close> is \<open>undefined\<close>).
\<close>

type_synonym anthropicClient = "anthropicRequest \<Rightarrow> jsError + anthropicResponse"
type_synonym openaiClient = "openaiRequest \<Rightarrow> jsError + openaiResponse"

record LLMService =
  anthropic :: "anthropicClient option"
  openai :: "openaiClient option"
  defaultModel :: string

text \<open>
  \<open>constructor()\<close>, with the SDK constructors \<open>new Anthropic({apiKey})\<close> and
  \<open>new OpenAI({apiKey})\<close> as parameters.
\<close>

definition "constructor" ::
  "(string \<Rightarrow> anthropicClient) \<Rightarrow> (string \<Rightarrow> openaiClient) \<Rightarrow> env \<Rightarrow> LLMService" where
  "constructor newAnthropic newOpenAI e =
     \<lparr> anthropic =
         (case ANTHROPIC_API_KEY e of
            None \<Rightarrow> None
          | Some k \<Rightarrow> if k \<noteq> [] then Some (newAnthropic k) else None),
       openai =
         (case OPENAI_API_KEY e of
            None \<Rightarrow> None
          | Some k \<Rightarrow> if k \<noteq> [] then Some (newOpenAI k) else None),
       defaultModel =
         (case DEFAULT_LLM_MODEL e of
            None \<Rightarrow> ''claude-3-sonnet-20240229''
          | Some m \<Rightarrow> if m \<noteq> [] then m else ''claude-3-sonnet-20240229'') \<rparr>"

section \<open>The two backends\<close>

text \<open>
  Every operation returns its outcome (\<open>Inl\<close> the error thrown, \<open>Inr\<close> the value
  returned) together with the outbound calls it made, in order.
\<close>

type_synonym outcome = "(jsError + generationResult) \<times> call list"

definition generateWithAnthropic :: "LLMService \<Rightarrow> string \<Rightarrow> options \<Rightarrow> outcome" where
  "generateWithAnthropic this prompt options =
     (let model = (case opt_model options of None \<Rightarrow> ''claude-3-sonnet-20240229'' | Some m \<Rightarrow> m);
          maxTokens = (case opt_maxTokens options of None \<Rightarrow> 4000 | Some n \<Rightarrow> n);
          temperature = (case opt_temperature options of None \<Rightarrow> 7 / 10 | Some t \<Rightarrow> t);
          systemPrompt = opt_systemPrompt options;
          messages = [\<lparr> role = ''user'', content = prompt \<rparr>];
          request = \<lparr> a_model = model, a_max_tokens = maxTokens, a_temperature = temperature,
                      a_system = systemPrompt, a_messages = messages \<rparr>
      in case anthropic this of
           None \<Rightarrow> (Inl (typeErrorReading ''messages''), [])
         | Some client \<Rightarrow>
             (case client request of
                Inl e \<Rightarrow> (Inl e, [AnthropicCall request])
              | Inr response \<Rightarrow>
                  (case a_content response of
                     [] \<Rightarrow> (Inl (typeErrorReading ''text''), [AnthropicCall request])
                   | text # rest \<Rightarrow>
                       (Inr \<lparr> res_content = text, res_model = model,
                              res_usage = a_usage response, res_provider = ''anthropic'' \<rparr>,
                        [AnthropicCall request]))))"

definition generateWithOpenAI :: "LLMService \<Rightarrow> string \<Rightarrow> options \<Rightarrow> outcome" where
  "generateWithOpenAI this prompt options =
     (let model = (case opt_model options of None \<Rightarrow> ''gpt-4'' | Some m \<Rightarrow> m);
          maxTokens = (case opt_maxTokens options of None \<Rightarrow> 4000 | Some n \<Rightarrow> n);
          temperature = (case opt_temperature options of None \<Rightarrow> 7 / 10 | Some t \<Rightarrow> t);
          systemPrompt = opt_systemPrompt options;
          messages =
            (case systemPrompt of
               None \<Rightarrow> []
             | Some s \<Rightarrow> if s \<noteq> [] then [\<lparr> role = ''system'', content = s \<rparr>] else [])
            @ [\<lparr> role = ''user'', content = prompt \<rparr>];
          request = \<lparr> o_model = model, o_messages = messages, o_max_tokens = maxTokens,
                      o_temperature = temperature \<rparr>
      in case openai this of
           None \<Rightarrow> (Inl (typeErrorReading ''chat''), [])
         | Some client \<Rightarrow>
             (case client request of
                Inl e \<Rightarrow> (Inl e, [OpenAICall request])
              | Inr response \<Rightarrow>
                  (case o_choices response of
                     [] \<Rightarrow> (Inl (typeErrorReading ''message''), [OpenAICall request])
                   | text # rest \<Rightarrow>
                       (Inr \<lparr> res_content = text, res_model = model,
                              res_usage = o_usage response, res_provider = ''openai'' \<rparr>,
                        [OpenAICall request]))))"

section \<open>The dispatcher\<close>

text \<open>
  The block that computes \<open>useProvider\<close>: an explicit \<open>provider\<close> is kept as it is,
  \<open>auto\<close> is resolved from the model name and, failing that, from the presence of the
  Anthropic client.
\<close>

definition selectProvider :: "LLMService \<Rightarrow> string \<Rightarrow> string \<Rightarrow> string" where
  "selectProvider this model provider =
     (if provider = ''auto'' then
        (if includes_str model ''claude'' \<or> includes_str model ''anthropic'' then ''anthropic''
         else if includes_str model ''gpt'' \<or> includes_str model ''openai'' then ''openai''
         else (if anthropic this \<noteq> None then ''anthropic'' else ''openai''))
      else provider)"

text \<open>The destructuring of \<open>options\<close> at the head of \<open>generateResponseWithProvider\<close>.\<close>

definition resolvedModel :: "LLMService \<Rightarrow> options \<Rightarrow> string" where
  "resolvedModel this options = (case opt_model options of None \<Rightarrow> defaultModel this | Some m \<Rightarrow> m)"

definition resolvedMaxTokens :: "options \<Rightarrow> int" where
  "resolvedMaxTokens options = (case opt_maxTokens options of None \<Rightarrow> 4000 | Some n \<Rightarrow> n)"

definition resolvedTemperature :: "options \<Rightarrow> rat" where
  "resolvedTemperature options = (case opt_temperature options of None \<Rightarrow> 7 / 10 | Some t \<Rightarrow> t)"

definition resolvedProvider :: "options \<Rightarrow> string" where
  "resolvedProvider options = (case opt_provider options of None \<Rightarrow> ''auto'' | Some p \<Rightarrow> p)"

text \<open>
  \<open>generateResponseWithProvider\<close>. The object handed to the backend function has the
  four properties \<open>model\<close>, \<open>maxTokens\<close>, \<open>temperature\<close> and \<open>systemPrompt\<close>. An error
  thrown inside \<open>try\<close> is replaced by a new \<open>Error\<close> that keeps its message only.
\<close>

definition generateResponseWithProvider :: "LLMService \<Rightarrow> string \<Rightarrow> options \<Rightarrow> outcome" where
  "generateResponseWithProvider this prompt options =
     (let model = resolvedModel this options;
          maxTokens = resolvedMaxTokens options;
          temperature = resolvedTemperature options;
          systemPrompt = opt_systemPrompt options;
          provider = resolvedProvider options;
          useProvider = selectProvider this model provider;
          passed = \<lparr> opt_model = Some model, opt_maxTokens = Some maxTokens,
                     opt_temperature = Some temperature, opt_systemPrompt = systemPrompt,
                     opt_provider = None \<rparr>;
          attempt =
            (if useProvider = ''anthropic'' \<and> anthropic this \<noteq> None then
               generateWithAnthropic this prompt passed
             else if useProvider = ''openai'' \<and> openai this \<noteq> None then
               generateWithOpenAI this prompt passed
             else
               (Inl (JsError ''Error''
                       (''Provider '' @ useProvider @ '' not available or not configured'')), []))
      in case attempt of
           (Inl error, calls) \<Rightarrow>
             (Inl (JsError ''Error'' (''LLM generation failed: '' @ errMessage error)), calls)
         | (Inr result, calls) \<Rightarrow> (Inr result, calls))"

section \<open>The reference selection\<close>

text \<open>
  The selection rule in the words of the specification, over the two providers: provider A
  is the backend with the top-level system field (Anthropic), provider B the one that takes
  the system prompt as the first message (OpenAI). A model name belongs to a family when it
  contains one of the fragments that name the family.
\<close>

datatype providerId = ProviderA | ProviderB

fun providerName :: "providerId \<Rightarrow> string" where
  "providerName ProviderA = ''anthropic''"
| "providerName ProviderB = ''openai''"

definition familyA :: "string \<Rightarrow> bool" where
  "familyA model = (includes_str model ''claude'' \<or> includes_str model ''anthropic'')"

definition familyB :: "string \<Rightarrow> bool" where
  "familyB model = (includes_str model ''gpt'' \<or> includes_str model ''openai'')"

definition referenceSelection :: "bool \<Rightarrow> string \<Rightarrow> providerId" where
  "referenceSelection enabledA model =
     (if familyA model then ProviderA
      else if familyB model then ProviderB
      else if enabledA then ProviderA
      else ProviderB)"

section \<open>Code analysis\<close>

definition systemPrompts :: "(string \<times> string) list" where
  "systemPrompts =
     [(''security'', ''You are a security expert. Analyze the provided code for security vulnerabilities, potential exploits, and security best practices.''),
      (''performance'', ''You are a performance optimization expert. Analyze the code for performance issues, bottlenecks, and optimization opportunities.''),
      (''quality'', ''You are a code quality expert. Review the code for maintainability, readability, design patterns, and best practices.''),
      (''testing'', ''You are a testing expert. Analyze the code and suggest comprehensive test cases, edge cases, and testing strategies.''),
      (''general'', ''You are a senior software engineer. Provide a comprehensive code review covering security, performance, quality, and testing aspects.''),
      (''comprehensive'', ''You are a senior software engineer and security expert. Provide a detailed analysis covering security vulnerabilities, performance issues, code quality, maintainability, and testing recommendations.'')]"

text \<open>The template literal of \<open>analyzeCode\<close>, with its line breaks.\<close>

definition analyzeCodePrompt :: "string \<Rightarrow> string" where
  "analyzeCodePrompt code =
     ''Please analyze the following code:'' @ [CHR 0x0A, CHR 0x0A] @ ''```'' @ [CHR 0x0A]
     @ code @ [CHR 0x0A] @ ''```'' @ [CHR 0x0A, CHR 0x0A]
     @ ''Provide detailed analysis and recommendations.''"

text \<open>
  Object spread \<open>{...base, ...ext}\<close> on option objects: a property of \<open>ext\<close> replaces
  the one of \<open>base\<close>.
\<close>

definition spread :: "options \<Rightarrow> options \<Rightarrow> options" where
  "spread base ext =
     \<lparr> opt_model = (case opt_model ext of None \<Rightarrow> opt_model base | Some v \<Rightarrow> Some v),
       opt_maxTokens = (case opt_maxTokens ext of None \<Rightarrow> opt_maxTokens base | Some v \<Rightarrow> Some v),
       opt_temperature = (case opt_temperature ext of None \<Rightarrow> opt_temperature base | Some v \<Rightarrow> Some v),
       opt_systemPrompt = (case opt_systemPrompt ext of None \<Rightarrow> opt_systemPrompt base | Some v \<Rightarrow> Some v),
       opt_provider = (case opt_provider ext of None \<Rightarrow> opt_provider base | Some v \<Rightarrow> Some v) \<rparr>"

text \<open>
  \<open>analyzeCode(code, analysisType)\<close>. The argument object of its call spreads the
  identifier \<open>options\<close>. The function binds \<open>code\<close>, \<open>analysisType\<close>, \<open>systemPrompts\<close>
  and \<open>prompt\<close>, the module binds \<open>Anthropic\<close>, \<open>OpenAI\<close>, \<open>axios\<close>, \<open>logger\<close> and
  \<open>LLMService\<close>, so \<open>options\<close> resolves against the global object: \<open>globalOptions\<close>
  is the value of a global of that name, \<open>None\<close> when there is none. The properties of
  the object literal are evaluated in order, before the call. \<open>systemPrompts\<close> is
  looked up by its own six keys only (names inherited from \<open>Object.prototype\<close> are left
  out).
\<close>

definition analyzeCode :: "options option \<Rightarrow> LLMService \<Rightarrow> string \<Rightarrow> string \<Rightarrow> outcome" where
  "analyzeCode globalOptions this code analysisType =
     (let prompt = analyzeCodePrompt code;
          systemPrompt =
            (case map_of systemPrompts analysisType of
               Some s \<Rightarrow> s
             | None \<Rightarrow> the (map_of systemPrompts ''general''))
      in case globalOptions of
           None \<Rightarrow> (Inl (JsError ''ReferenceError'' ''options is not defined''), [])
         | Some ext \<Rightarrow>
             generateResponseWithProvider this prompt
               (spread \<lparr> opt_model = None, opt_maxTokens = Some 3000, opt_temperature = None,
                         opt_systemPrompt = Some systemPrompt, opt_provider = None \<rparr> ext))"

section \<open>Concrete services and clients\<close>

definition okAnthropic :: anthropicClient where
  "okAnthropic request = Inr \<lparr> a_content = [''ok''], a_usage = [(''input_tokens'', 1), (''output_tokens'', 1)] \<rparr>"

definition okOpenAI :: openaiClient where
  "okOpenAI request = Inr \<lparr> o_choices = [''ok''], o_usage = [(''total_tokens'', 2)] \<rparr>"

definition failingAnthropic :: "string \<Rightarrow> anthropicClient" where
  "failingAnthropic msg request = Inl (JsError ''APIError'' msg)"

definition testEnv :: env where
  "testEnv = \<lparr> ANTHROPIC_API_KEY = Some ''test-anthropic-key'',
               OPENAI_API_KEY = Some ''test-openai-key'',
               DEFAULT_LLM_MODEL = None \<rparr>"

definition noOptions :: options where
  "noOptions = \<lparr> opt_model = None, opt_maxTokens = None, opt_temperature = None,
                 opt_systemPrompt = None, opt_provider = None \<rparr>"

section \<open>What the dispatcher sends\<close>

text \<open>
  Notation for the provider the dispatcher selects, the request object each backend
  function builds from the options the dispatcher passes on, and the error the dispatcher
  throws in place of a caught one.
\<close>

abbreviation useProviderOf :: "LLMService \<Rightarrow> options \<Rightarrow> string" where
  "useProviderOf this options \<equiv>
     selectProvider this (resolvedModel this options) (resolvedProvider options)"

abbreviation requestForAnthropic :: "LLMService \<Rightarrow> string \<Rightarrow> options \<Rightarrow> anthropicRequest" where
  "requestForAnthropic this prompt options \<equiv>
     \<lparr> a_model = resolvedModel this options, a_max_tokens = resolvedMaxTokens options,
       a_temperature = resolvedTemperature options, a_system = opt_systemPrompt options,
       a_messages = [\<lparr> role = ''user'', content = prompt \<rparr>] \<rparr>"

abbreviation requestForOpenAI :: "LLMService \<Rightarrow> string \<Rightarrow> options \<Rightarrow> openaiRequest" where
  "requestForOpenAI this prompt options \<equiv>
     \<lparr> o_model = resolvedModel this options,
       o_messages =
         (case opt_systemPrompt options of
            None \<Rightarrow> []
          | Some s \<Rightarrow> if s \<noteq> [] then [\<lparr> role = ''system'', content = s \<rparr>] else [])
         @ [\<lparr> role = ''user'', content = prompt \<rparr>],
       o_max_tokens = resolvedMaxTokens options,
       o_temperature = resolvedTemperature options \<rparr>"

abbreviation wrapped :: "jsError \<Rightarrow> jsError" where
  "wrapped e \<equiv> JsError ''Error'' (''LLM generation failed: '' @ errMessage e)"

section \<open>Service objects built by the constructor\<close>

definition svcBoth :: LLMService where
  "svcBoth = constructor (\<lambda>key. okAnthropic) (\<lambda>key. okOpenAI) testEnv"

definition svcOnlyA :: LLMService where
  "svcOnlyA = constructor (\<lambda>key. okAnthropic) (\<lambda>key. okOpenAI) (testEnv\<lparr> OPENAI_API_KEY := None \<rparr>)"

definition svcOnlyB :: LLMService where
  "svcOnlyB = constructor (\<lambda>key. okAnthropic) (\<lambda>key. okOpenAI) (testEnv\<lparr> ANTHROPIC_API_KEY := None \<rparr>)"

definition svcNone :: LLMService where
  "svcNone = constructor (\<lambda>key. okAnthropic) (\<lambda>key. okOpenAI)
               (testEnv\<lparr> ANTHROPIC_API_KEY := None, OPENAI_API_KEY := None \<rparr>)"

definition svcFailingA :: "string \<Rightarrow> LLMService" where
  "svcFailingA msg = constructor (\<lambda>key. failingAnthropic msg) (\<lambda>key. okOpenAI) testEnv"

section \<open>Basic facts\<close>

lemmas svc_defs = svcBoth_def svcOnlyA_def svcOnlyB_def svcNone_def svcFailingA_def
  constructor_def testEnv_def noOptions_def okAnthropic_def okOpenAI_def failingAnthropic_def

lemmas gen_defs = generateResponseWithProvider_def generateWithAnthropic_def
  generateWithOpenAI_def selectProvider_def resolvedModel_def resolvedMaxTokens_def
  resolvedTemperature_def resolvedProvider_def typeErrorReading_def Let_def

text \<open>\<open>includes_str\<close> is the substring relation.\<close>

lemma includes_str_iff: "includes_str s sub \<longleftrightarrow> (\<exists>p q. s = p @ sub @ q)"
proof (induction s)
  case Nil
  then show ?case by auto
next
  case (Cons c cs)
  show ?case
  proof
    assume "includes_str (c # cs) sub"
    then consider "prefix sub (c # cs)" | "includes_str cs sub" by auto
    then show "\<exists>p q. c # cs = p @ sub @ q"
    proof cases
      case 1
      then obtain q where "c # cs = sub @ q" by (auto simp: prefix_def)
      then have "c # cs = [] @ sub @ q" by simp
      then show ?thesis by blast
    next
      case 2
      with Cons.IH obtain p q where "cs = p @ sub @ q" by blast
      then have "c # cs = (c # p) @ sub @ q" by simp
      then show ?thesis by blast
    qed
  next
    assume "\<exists>p q. c # cs = p @ sub @ q"
    then obtain p q where pq: "c # cs = p @ sub @ q" by blast
    show "includes_str (c # cs) sub"
    proof (cases p)
      case Nil
      with pq have "prefix sub (c # cs)" by (simp add: prefix_def)
      then show ?thesis by simp
    next
      case (Cons a p')
      with pq have "cs = p' @ sub @ q" by simp
      with Cons.IH have "includes_str cs sub" by blast
      then show ?thesis by simp
    qed
  qed
qed

text \<open>
  The three ways through the dispatcher: the Anthropic branch, the OpenAI branch, and the
  branch that throws because the selected provider has no client.
\<close>

lemma generate_anthropic:
  assumes "useProviderOf this options = ''anthropic''" and "anthropic this = Some client"
  shows "generateResponseWithProvider this prompt options =
     (case client (requestForAnthropic this prompt options) of
        Inl e \<Rightarrow> (Inl (wrapped e), [AnthropicCall (requestForAnthropic this prompt options)])
      | Inr response \<Rightarrow>
          (case a_content response of
             [] \<Rightarrow> (Inl (wrapped (typeErrorReading ''text'')),
                    [AnthropicCall (requestForAnthropic this prompt options)])
           | text # rest \<Rightarrow>
               (Inr \<lparr> res_content = text, res_model = resolvedModel this options,
                      res_usage = a_usage response, res_provider = ''anthropic'' \<rparr>,
                [AnthropicCall (requestForAnthropic this prompt options)])))"
  using assms
  by (simp add: generateResponseWithProvider_def generateWithAnthropic_def Let_def
      split: sum.splits list.splits)

lemma generate_openai:
  assumes "useProviderOf this options = ''openai''" and "openai this = Some client"
  shows "generateResponseWithProvider this prompt options =
     (case client (requestForOpenAI this prompt options) of
        Inl e \<Rightarrow> (Inl (wrapped e), [OpenAICall (requestForOpenAI this prompt options)])
      | Inr response \<Rightarrow>
          (case o_choices response of
             [] \<Rightarrow> (Inl (wrapped (typeErrorReading ''message'')),
                    [OpenAICall (requestForOpenAI this prompt options)])
           | text # rest \<Rightarrow>
               (Inr \<lparr> res_content = text, res_model = resolvedModel this options,
                      res_usage = o_usage response, res_provider = ''openai'' \<rparr>,
                [OpenAICall (requestForOpenAI this prompt options)])))"
  using assms
  by (simp add: generateResponseWithProvider_def generateWithOpenAI_def Let_def
      split: sum.splits list.splits)

lemma generate_unavailable:
  assumes "\<not> (useProviderOf this options = ''anthropic'' \<and> anthropic this \<noteq> None)"
    and "\<not> (useProviderOf this options = ''openai'' \<and> openai this \<noteq> None)"
  shows "generateResponseWithProvider this prompt options =
     (Inl (JsError ''Error''
        (''LLM generation failed: Provider '' @ useProviderOf this options
           @ '' not available or not configured'')), [])"
  using assms
  by (auto simp add: generateResponseWithProvider_def Let_def)

lemma generate_cases:
  obtains (A) client where "useProviderOf this options = ''anthropic''" "anthropic this = Some client"
  | (B) client where "useProviderOf this options = ''openai''" "openai this = Some client"
  | (U) "\<not> (useProviderOf this options = ''anthropic'' \<and> anthropic this \<noteq> None)"
        "\<not> (useProviderOf this options = ''openai'' \<and> openai this \<noteq> None)"
  by (cases "useProviderOf this options = ''anthropic'' \<and> anthropic this \<noteq> None";
      cases "useProviderOf this options = ''openai'' \<and> openai this \<noteq> None") auto

section \<open>The claims\<close>

text \<open>
  Claim C1. Whenever \<open>generateResponseWithProvider\<close> returns a result, exactly one
  backend call was made, the \<open>provider\<close> of the result names the backend of that call,
  and the \<open>model\<close> of the result is the model of the request that was sent: the
  caller's model, or \<open>this.defaultModel\<close> when the caller gave none. The literals
  \<open>claude-3-sonnet-20240229\<close> and \<open>gpt-4\<close> of the two backend functions are never
  reached through the dispatcher.
\<close>

theorem result_echoes_provider_and_model:
  assumes "generateResponseWithProvider this prompt options = (Inr result, calls)"
  shows "\<exists>c. calls = [c] \<and> res_provider result = callProvider c
           \<and> res_model result = callModel c
           \<and> callModel c = (case opt_model options of None \<Rightarrow> defaultModel this | Some m \<Rightarrow> m)"
proof (cases rule: generate_cases [of this options])
  case (A client)
  from assms show ?thesis
    unfolding generate_anthropic [OF A]
    by (auto simp: resolvedModel_def split: sum.splits list.splits)
next
  case (B client)
  from assms show ?thesis
    unfolding generate_openai [OF B]
    by (auto simp: resolvedModel_def split: sum.splits list.splits)
next
  case U
  from assms show ?thesis
    unfolding generate_unavailable [OF U] by simp
qed

text \<open>
  A run for C1: both keys set, no default model in the environment, no options.
\<close>

theorem result_echoes_provider_and_model_witness:
  "generateResponseWithProvider svcBoth ''hello'' noOptions =
     (Inr \<lparr> res_content = ''ok'', res_model = ''claude-3-sonnet-20240229'',
            res_usage = [(''input_tokens'', 1), (''output_tokens'', 1)],
            res_provider = ''anthropic'' \<rparr>,
      [AnthropicCall \<lparr> a_model = ''claude-3-sonnet-20240229'', a_max_tokens = 4000,
         a_temperature = 7 / 10, a_system = None,
         a_messages = [\<lparr> role = ''user'', content = ''hello'' \<rparr>] \<rparr>])
   \<and> defaultModel svcBoth = ''claude-3-sonnet-20240229''"
proof -
  have run: "generateResponseWithProvider svcBoth ''hello'' noOptions =
     (Inr \<lparr> res_content = ''ok'', res_model = ''claude-3-sonnet-20240229'',
            res_usage = [(''input_tokens'', 1), (''output_tokens'', 1)],
            res_provider = ''anthropic'' \<rparr>,
      [AnthropicCall \<lparr> a_model = ''claude-3-sonnet-20240229'', a_max_tokens = 4000,
         a_temperature = 7 / 10, a_system = None,
         a_messages = [\<lparr> role = ''user'', content = ''hello'' \<rparr>] \<rparr>])"
    by (simp add: svc_defs gen_defs)
  from result_echoes_provider_and_model [OF run] run show ?thesis
    by (simp add: svc_defs)
qed

text \<open>
  Claim C2, as the code has it. A request whose \<open>provider\<close> names a backend whose
  client was not created fails, whatever the prompt and the other options, and no
  backend is called. What is thrown is a plain \<open>Error\<close> with the message
  \<open>LLM generation failed: Provider <name> not available or not configured\<close>.
\<close>

theorem explicit_hint_disabled_fails_without_call:
  "(opt_provider options = Some ''anthropic'' \<and> anthropic this = None \<longrightarrow>
      generateResponseWithProvider this prompt options =
        (Inl (JsError ''Error''
           ''LLM generation failed: Provider anthropic not available or not configured''), []))
   \<and> (opt_provider options = Some ''openai'' \<and> openai this = None \<longrightarrow>
      generateResponseWithProvider this prompt options =
        (Inl (JsError ''Error''
           ''LLM generation failed: Provider openai not available or not configured''), []))"
proof (intro conjI impI)
  assume h: "opt_provider options = Some ''anthropic'' \<and> anthropic this = None"
  then have sel: "useProviderOf this options = ''anthropic''"
    by (simp add: selectProvider_def resolvedProvider_def)
  show "generateResponseWithProvider this prompt options =
        (Inl (JsError ''Error''
           ''LLM generation failed: Provider anthropic not available or not configured''), [])"
    using generate_unavailable [of this options prompt] h sel by simp
next
  assume h: "opt_provider options = Some ''openai'' \<and> openai this = None"
  then have sel: "useProviderOf this options = ''openai''"
    by (simp add: selectProvider_def resolvedProvider_def)
  show "generateResponseWithProvider this prompt options =
        (Inl (JsError ''Error''
           ''LLM generation failed: Provider openai not available or not configured''), [])"
    using generate_unavailable [of this options prompt] h sel by simp
qed

text \<open>
  Runs for C2: each backend named while it alone is missing.
\<close>

theorem explicit_hint_disabled_fails_without_call_witness:
  "generateResponseWithProvider svcOnlyB ''x'' (noOptions\<lparr> opt_provider := Some ''anthropic'' \<rparr>) =
     (Inl (JsError ''Error''
        ''LLM generation failed: Provider anthropic not available or not configured''), [])
   \<and> generateResponseWithProvider svcOnlyA ''x'' (noOptions\<lparr> opt_provider := Some ''openai'' \<rparr>) =
     (Inl (JsError ''Error''
        ''LLM generation failed: Provider openai not available or not configured''), [])
   \<and> openai svcOnlyB \<noteq> None \<and> anthropic svcOnlyA \<noteq> None"
  using explicit_hint_disabled_fails_without_call [of "noOptions\<lparr> opt_provider := Some ''anthropic'' \<rparr>" svcOnlyB "''x''"]
    explicit_hint_disabled_fails_without_call [of "noOptions\<lparr> opt_provider := Some ''openai'' \<rparr>" svcOnlyA "''x''"]
  by (simp add: svc_defs)

text \<open>
  Against C2 as stated: the error of a request that names the missing Anthropic backend is
  the very error (class \<open>Error\<close>, same message) that the dispatcher throws after a
  failed call to an enabled Anthropic backend, so it is not an error kind of its own.
\<close>

theorem unavailable_error_equals_upstream_error:
  "generateResponseWithProvider svcOnlyB ''x'' (noOptions\<lparr> opt_provider := Some ''anthropic'' \<rparr>) =
     (Inl (JsError ''Error''
        ''LLM generation failed: Provider anthropic not available or not configured''), [])
   \<and> generateResponseWithProvider
        (svcFailingA ''Provider anthropic not available or not configured'') ''x''
        (noOptions\<lparr> opt_provider := Some ''anthropic'' \<rparr>) =
     (Inl (JsError ''Error''
        ''LLM generation failed: Provider anthropic not available or not configured''),
      [AnthropicCall \<lparr> a_model = ''claude-3-sonnet-20240229'', a_max_tokens = 4000,
         a_temperature = 7 / 10, a_system = None,
         a_messages = [\<lparr> role = ''user'', content = ''x'' \<rparr>] \<rparr>])"
  by (simp add: svc_defs gen_defs)

text \<open>
  Claim C3, as the code has it. With neither client created every call fails and no
  backend is called, whatever the options. What is thrown is a plain \<open>Error\<close> whose
  message names the provider that was selected (the \<open>provider\<close> option itself when it
  is not \<open>auto\<close>).
\<close>

theorem no_backend_fails_without_call:
  assumes "anthropic this = None" and "openai this = None"
  shows "generateResponseWithProvider this prompt options =
     (Inl (JsError ''Error''
        (''LLM generation failed: Provider '' @ useProviderOf this options
           @ '' not available or not configured'')), [])"
  using generate_unavailable [of this options prompt] assms by simp

text \<open>
  A run for C3: no key set, model \<open>gpt-4\<close>.
\<close>

theorem no_backend_fails_without_call_witness:
  "anthropic svcNone = None \<and> openai svcNone = None
   \<and> generateResponseWithProvider svcNone ''x'' (noOptions\<lparr> opt_model := Some ''gpt-4'' \<rparr>) =
     (Inl (JsError ''Error''
        ''LLM generation failed: Provider openai not available or not configured''), [])"
proof -
  have a: "anthropic svcNone = None" and b: "openai svcNone = None"
    by (simp_all add: svc_defs)
  from no_backend_fails_without_call [OF a b, of "''x''" "noOptions\<lparr> opt_model := Some ''gpt-4'' \<rparr>"] a b
  show ?thesis by (simp add: svc_defs gen_defs)
qed

text \<open>
  Against C3 as stated: with no backend enabled, a request that names Anthropic has the
  same outcome as the same request when only Anthropic is missing and OpenAI is enabled,
  so the error is not of a kind reserved for the case that nothing is configured.
\<close>

theorem no_backend_error_equals_unavailable_error:
  "generateResponseWithProvider svcNone ''x'' (noOptions\<lparr> opt_provider := Some ''anthropic'' \<rparr>) =
     generateResponseWithProvider svcOnlyB ''x'' (noOptions\<lparr> opt_provider := Some ''anthropic'' \<rparr>)
   \<and> generateResponseWithProvider svcNone ''x'' (noOptions\<lparr> opt_provider := Some ''anthropic'' \<rparr>) =
     (Inl (JsError ''Error''
        ''LLM generation failed: Provider anthropic not available or not configured''), [])
   \<and> anthropic svcNone = None \<and> openai svcNone = None
   \<and> anthropic svcOnlyB = None \<and> openai svcOnlyB \<noteq> None"
  by (simp add: svc_defs gen_defs)

text \<open>
  Claim C4. For \<open>provider = auto\<close> the provider computed by the code is the one of the
  reference selection; a model of neither family selects Anthropic when both backends
  are enabled; and every backend call made in \<open>auto\<close> mode goes to the provider of the
  reference selection for the resolved model.
\<close>

theorem auto_selection_is_reference_selection:
  "selectProvider this model ''auto'' = providerName (referenceSelection (anthropic this \<noteq> None) model)
   \<and> (\<not> familyA model \<and> \<not> familyB model \<and> anthropic this \<noteq> None \<and> openai this \<noteq> None
        \<longrightarrow> selectProvider this model ''auto'' = ''anthropic'')
   \<and> (resolvedProvider options = ''auto'' \<longrightarrow>
        (\<forall>c \<in> set (snd (generateResponseWithProvider this prompt options)).
           callProvider c =
             providerName (referenceSelection (anthropic this \<noteq> None) (resolvedModel this options))))"
proof (intro conjI impI)
  show sel: "selectProvider this model ''auto'' =
      providerName (referenceSelection (anthropic this \<noteq> None) model)" for model
    by (simp add: selectProvider_def referenceSelection_def familyA_def familyB_def)
  show "selectProvider this model ''auto'' = ''anthropic''"
    if "\<not> familyA model \<and> \<not> familyB model \<and> anthropic this \<noteq> None \<and> openai this \<noteq> None"
    using that by (simp add: selectProvider_def familyA_def familyB_def)
  assume auto: "resolvedProvider options = ''auto''"
  show "\<forall>c \<in> set (snd (generateResponseWithProvider this prompt options)).
           callProvider c =
             providerName (referenceSelection (anthropic this \<noteq> None) (resolvedModel this options))"
  proof (cases rule: generate_cases [of this options])
    case (A client)
    with auto sel [of "resolvedModel this options"] show ?thesis
      unfolding generate_anthropic [OF A] by (simp split: sum.splits list.splits)
  next
    case (B client)
    with auto sel [of "resolvedModel this options"] show ?thesis
      unfolding generate_openai [OF B] by (simp split: sum.splits list.splits)
  next
    case U
    show ?thesis unfolding generate_unavailable [OF U] by simp
  qed
qed

text \<open>
  A run for C4: model \<open>llama-3\<close> belongs to neither family, both backends enabled.
\<close>

theorem auto_selection_is_reference_selection_witness:
  "\<not> familyA ''llama-3'' \<and> \<not> familyB ''llama-3''
   \<and> anthropic svcBoth \<noteq> None \<and> openai svcBoth \<noteq> None
   \<and> selectProvider svcBoth ''llama-3'' ''auto'' = ''anthropic''
   \<and> resolvedProvider (noOptions\<lparr> opt_model := Some ''llama-3'' \<rparr>) = ''auto''
   \<and> map callProvider
        (snd (generateResponseWithProvider svcBoth ''hello'' (noOptions\<lparr> opt_model := Some ''llama-3'' \<rparr>)))
       = [''anthropic'']
   \<and> providerName (referenceSelection (anthropic svcBoth \<noteq> None) ''llama-3'') = ''anthropic''"
proof -
  have fam: "\<not> familyA ''llama-3'' \<and> \<not> familyB ''llama-3''"
    by (simp add: familyA_def familyB_def)
  have en: "anthropic svcBoth \<noteq> None \<and> openai svcBoth \<noteq> None"
    by (simp add: svc_defs)
  have hint: "resolvedProvider (noOptions\<lparr> opt_model := Some ''llama-3'' \<rparr>) = ''auto''"
    by (simp add: resolvedProvider_def noOptions_def)
  have run: "map callProvider
        (snd (generateResponseWithProvider svcBoth ''hello'' (noOptions\<lparr> opt_model := Some ''llama-3'' \<rparr>)))
       = [''anthropic'']"
    by (simp add: svc_defs gen_defs)
  have ref: "providerName (referenceSelection (anthropic svcBoth \<noteq> None)
               (resolvedModel svcBoth (noOptions\<lparr> opt_model := Some ''llama-3'' \<rparr>))) = ''anthropic''"
    by (simp add: svc_defs referenceSelection_def familyA_def familyB_def resolvedModel_def)
  from auto_selection_is_reference_selection [of svcBoth "''llama-3''" "noOptions\<lparr> opt_model := Some ''llama-3'' \<rparr>" "''hello''"]
    fam en hint run ref
  show ?thesis by (simp add: resolvedModel_def noOptions_def)
qed

text \<open>
  Claim C5, as the code has it. When Anthropic is invoked, the system prompt is the
  top-level \<open>system\<close> field and \<open>messages\<close> is the user message alone. When OpenAI is
  invoked, \<open>messages\<close> is the system message followed by the user message if the system
  prompt is a non-empty string, and the user message alone if it is absent or empty. The
  request \<open>{prompt: hello, model: gpt-4, provider: openai}\<close> sends the single user
  message.
\<close>

theorem system_prompt_placement:
  "(useProviderOf this options = ''anthropic'' \<and> anthropic this \<noteq> None \<longrightarrow>
      snd (generateResponseWithProvider this prompt options) =
        [AnthropicCall
           \<lparr> a_model = resolvedModel this options, a_max_tokens = resolvedMaxTokens options,
             a_temperature = resolvedTemperature options, a_system = opt_systemPrompt options,
             a_messages = [\<lparr> role = ''user'', content = prompt \<rparr>] \<rparr>])
   \<and> (useProviderOf this options = ''openai'' \<and> openai this \<noteq> None \<longrightarrow>
      snd (generateResponseWithProvider this prompt options) =
        [OpenAICall
           \<lparr> o_model = resolvedModel this options,
             o_messages =
               (case opt_systemPrompt options of
                  None \<Rightarrow> [\<lparr> role = ''user'', content = prompt \<rparr>]
                | Some s \<Rightarrow>
                    if s \<noteq> [] then [\<lparr> role = ''system'', content = s \<rparr>,
                                     \<lparr> role = ''user'', content = prompt \<rparr>]
                    else [\<lparr> role = ''user'', content = prompt \<rparr>]),
             o_max_tokens = resolvedMaxTokens options,
             o_temperature = resolvedTemperature options \<rparr>])
   \<and> (openai this \<noteq> None \<longrightarrow>
      snd (generateResponseWithProvider this ''hello''
             \<lparr> opt_model = Some ''gpt-4'', opt_maxTokens = None, opt_temperature = None,
               opt_systemPrompt = None, opt_provider = Some ''openai'' \<rparr>) =
        [OpenAICall
           \<lparr> o_model = ''gpt-4'', o_messages = [\<lparr> role = ''user'', content = ''hello'' \<rparr>],
             o_max_tokens = 4000, o_temperature = 7 / 10 \<rparr>])"
proof (intro conjI impI)
  assume "useProviderOf this options = ''anthropic'' \<and> anthropic this \<noteq> None"
  then obtain client where A: "useProviderOf this options = ''anthropic''" "anthropic this = Some client"
    by auto
  show "snd (generateResponseWithProvider this prompt options) =
        [AnthropicCall (requestForAnthropic this prompt options)]"
    unfolding generate_anthropic [OF A] by (simp split: sum.splits list.splits)
next
  assume "useProviderOf this options = ''openai'' \<and> openai this \<noteq> None"
  then obtain client where B: "useProviderOf this options = ''openai''" "openai this = Some client"
    by auto
  have "snd (generateResponseWithProvider this prompt options) =
        [OpenAICall (requestForOpenAI this prompt options)]"
    unfolding generate_openai [OF B] by (simp split: sum.splits list.splits)
  then show "snd (generateResponseWithProvider this prompt options) =
        [OpenAICall
           \<lparr> o_model = resolvedModel this options,
             o_messages =
               (case opt_systemPrompt options of
                  None \<Rightarrow> [\<lparr> role = ''user'', content = prompt \<rparr>]
                | Some s \<Rightarrow>
                    if s \<noteq> [] then [\<lparr> role = ''system'', content = s \<rparr>,
                                     \<lparr> role = ''user'', content = prompt \<rparr>]
                    else [\<lparr> role = ''user'', content = prompt \<rparr>]),
             o_max_tokens = resolvedMaxTokens options,
             o_temperature = resolvedTemperature options \<rparr>]"
    by (simp split: option.splits)
next
  let ?o = "\<lparr> opt_model = Some ''gpt-4'', opt_maxTokens = None, opt_temperature = None,
               opt_systemPrompt = None, opt_provider = Some ''openai'' \<rparr>"
  assume "openai this \<noteq> None"
  then obtain client where c: "openai this = Some client" by auto
  have s: "useProviderOf this ?o = ''openai''"
    by (simp add: selectProvider_def resolvedProvider_def)
  show "snd (generateResponseWithProvider this ''hello'' ?o) =
        [OpenAICall
           \<lparr> o_model = ''gpt-4'', o_messages = [\<lparr> role = ''user'', content = ''hello'' \<rparr>],
             o_max_tokens = 4000, o_temperature = 7 / 10 \<rparr>]"
    unfolding generate_openai [OF s c]
    by (simp add: resolvedModel_def resolvedMaxTokens_def resolvedTemperature_def
        split: sum.splits list.splits)
qed

text \<open>
  Runs for C5: a system prompt sent to each backend, and the scenario of the claim.
\<close>

theorem system_prompt_placement_witness:
  "anthropic svcBoth \<noteq> None \<and> openai svcBoth \<noteq> None
   \<and> snd (generateResponseWithProvider svcBoth ''hello''
            (noOptions\<lparr> opt_systemPrompt := Some ''Be brief.'' \<rparr>)) =
       [AnthropicCall
          \<lparr> a_model = ''claude-3-sonnet-20240229'', a_max_tokens = 4000, a_temperature = 7 / 10,
            a_system = Some ''Be brief.'',
            a_messages = [\<lparr> role = ''user'', content = ''hello'' \<rparr>] \<rparr>]
   \<and> snd (generateResponseWithProvider svcBoth ''hello''
            (noOptions\<lparr> opt_model := Some ''gpt-4'', opt_systemPrompt := Some ''Be brief.'' \<rparr>)) =
       [OpenAICall
          \<lparr> o_model = ''gpt-4'',
            o_messages = [\<lparr> role = ''system'', content = ''Be brief.'' \<rparr>,
                          \<lparr> role = ''user'', content = ''hello'' \<rparr>],
            o_max_tokens = 4000, o_temperature = 7 / 10 \<rparr>]
   \<and> snd (generateResponseWithProvider svcBoth ''hello''
            \<lparr> opt_model = Some ''gpt-4'', opt_maxTokens = None, opt_temperature = None,
              opt_systemPrompt = None, opt_provider = Some ''openai'' \<rparr>) =
       [OpenAICall
          \<lparr> o_model = ''gpt-4'', o_messages = [\<lparr> role = ''user'', content = ''hello'' \<rparr>],
            o_max_tokens = 4000, o_temperature = 7 / 10 \<rparr>]"
proof -
  have en: "anthropic svcBoth \<noteq> None \<and> openai svcBoth \<noteq> None"
    by (simp add: svc_defs)
  have sa: "useProviderOf svcBoth (noOptions\<lparr> opt_systemPrompt := Some ''Be brief.'' \<rparr>) = ''anthropic''"
    by (simp add: svc_defs gen_defs)
  have sb: "useProviderOf svcBoth
              (noOptions\<lparr> opt_model := Some ''gpt-4'', opt_systemPrompt := Some ''Be brief.'' \<rparr>) = ''openai''"
    by (simp add: svc_defs gen_defs)
  from system_prompt_placement [of svcBoth "noOptions\<lparr> opt_systemPrompt := Some ''Be brief.'' \<rparr>" "''hello''"]
    system_prompt_placement [of svcBoth "noOptions\<lparr> opt_model := Some ''gpt-4'', opt_systemPrompt := Some ''Be brief.'' \<rparr>" "''hello''"]
    en sa sb
  show ?thesis
    by (simp add: svc_defs resolvedModel_def resolvedMaxTokens_def resolvedTemperature_def)
qed

text \<open>
  Against C5 as stated: a system prompt that is present but is the empty string is not
  sent to OpenAI as a system message.
\<close>

theorem empty_system_prompt_not_sent_to_openai:
  "openai svcBoth \<noteq> None
   \<and> snd (generateResponseWithProvider svcBoth ''hello''
            \<lparr> opt_model = Some ''gpt-4'', opt_maxTokens = None, opt_temperature = None,
              opt_systemPrompt = Some '''', opt_provider = Some ''openai'' \<rparr>) =
       [OpenAICall
          \<lparr> o_model = ''gpt-4'', o_messages = [\<lparr> role = ''user'', content = ''hello'' \<rparr>],
            o_max_tokens = 4000, o_temperature = 7 / 10 \<rparr>]
   \<and> snd (generateResponseWithProvider svcBoth ''hello''
            \<lparr> opt_model = Some ''gpt-4'', opt_maxTokens = None, opt_temperature = None,
              opt_systemPrompt = Some '''', opt_provider = Some ''openai'' \<rparr>) \<noteq>
       [OpenAICall
          \<lparr> o_model = ''gpt-4'',
            o_messages = [\<lparr> role = ''system'', content = '''' \<rparr>,
                          \<lparr> role = ''user'', content = ''hello'' \<rparr>],
            o_max_tokens = 4000, o_temperature = 7 / 10 \<rparr>]"
  by (simp add: svc_defs gen_defs)

text \<open>
  Claim C6. When the call of the selected backend throws an error \<open>e\<close> of any class,
  the dispatcher throws an \<open>Error\<close> whose message is \<open>LLM generation failed:\<close>
  followed by the message of \<open>e\<close>, after that one call; and no invocation of the
  dispatcher makes more than one backend call.
\<close>

theorem backend_error_wrapped_single_attempt:
  "(useProviderOf this options = ''anthropic'' \<and> anthropic this = Some clientA
      \<and> clientA (requestForAnthropic this prompt options) = Inl e \<longrightarrow>
      generateResponseWithProvider this prompt options =
        (Inl (JsError ''Error'' (''LLM generation failed: '' @ errMessage e)),
         [AnthropicCall (requestForAnthropic this prompt options)]))
   \<and> (useProviderOf this options = ''openai'' \<and> openai this = Some clientB
      \<and> clientB (requestForOpenAI this prompt options) = Inl e \<longrightarrow>
      generateResponseWithProvider this prompt options =
        (Inl (JsError ''Error'' (''LLM generation failed: '' @ errMessage e)),
         [OpenAICall (requestForOpenAI this prompt options)]))
   \<and> length (snd (generateResponseWithProvider this prompt options)) \<le> 1"
proof (intro conjI impI)
  assume h: "useProviderOf this options = ''anthropic'' \<and> anthropic this = Some clientA
      \<and> clientA (requestForAnthropic this prompt options) = Inl e"
  then have A: "useProviderOf this options = ''anthropic''" "anthropic this = Some clientA"
    by simp_all
  from h show "generateResponseWithProvider this prompt options =
        (Inl (JsError ''Error'' (''LLM generation failed: '' @ errMessage e)),
         [AnthropicCall (requestForAnthropic this prompt options)])"
    unfolding generate_anthropic [OF A] by simp
next
  assume h: "useProviderOf this options = ''openai'' \<and> openai this = Some clientB
      \<and> clientB (requestForOpenAI this prompt options) = Inl e"
  then have B: "useProviderOf this options = ''openai''" "openai this = Some clientB"
    by simp_all
  from h show "generateResponseWithProvider this prompt options =
        (Inl (JsError ''Error'' (''LLM generation failed: '' @ errMessage e)),
         [OpenAICall (requestForOpenAI this prompt options)])"
    unfolding generate_openai [OF B] by simp
next
  show "length (snd (generateResponseWithProvider this prompt options)) \<le> 1"
  proof (cases rule: generate_cases [of this options])
    case (A client)
    show ?thesis
      unfolding generate_anthropic [OF A] by (simp split: sum.splits list.splits)
  next
    case (B client)
    show ?thesis
      unfolding generate_openai [OF B] by (simp split: sum.splits list.splits)
  next
    case U
    show ?thesis
      unfolding generate_unavailable [OF U] by simp
  qed
qed

text \<open>
  A run for C6: the Anthropic client throws an \<open>APIError\<close>.
\<close>

theorem backend_error_wrapped_single_attempt_witness:
  "useProviderOf (svcFailingA ''rate limited'') noOptions = ''anthropic''
   \<and> anthropic (svcFailingA ''rate limited'') = Some (failingAnthropic ''rate limited'')
   \<and> failingAnthropic ''rate limited''
        (requestForAnthropic (svcFailingA ''rate limited'') ''hello'' noOptions)
      = Inl (JsError ''APIError'' ''rate limited'')
   \<and> generateResponseWithProvider (svcFailingA ''rate limited'') ''hello'' noOptions =
       (Inl (JsError ''Error'' ''LLM generation failed: rate limited''),
        [AnthropicCall
           \<lparr> a_model = ''claude-3-sonnet-20240229'', a_max_tokens = 4000, a_temperature = 7 / 10,
             a_system = None, a_messages = [\<lparr> role = ''user'', content = ''hello'' \<rparr>] \<rparr>])"
proof -
  have s: "useProviderOf (svcFailingA ''rate limited'') noOptions = ''anthropic''"
    by (simp add: svc_defs gen_defs)
  have c: "anthropic (svcFailingA ''rate limited'') = Some (failingAnthropic ''rate limited'')"
    by (simp add: svcFailingA_def constructor_def testEnv_def)
  have f: "failingAnthropic ''rate limited''
        (requestForAnthropic (svcFailingA ''rate limited'') ''hello'' noOptions)
      = Inl (JsError ''APIError'' ''rate limited'')"
    by (simp add: failingAnthropic_def)
  from backend_error_wrapped_single_attempt [of "svcFailingA ''rate limited''" noOptions "failingAnthropic ''rate limited''"
      "''hello''" "JsError ''APIError'' ''rate limited''"] s c f
  show ?thesis
    by (simp add: svc_defs resolvedModel_def resolvedMaxTokens_def resolvedTemperature_def)
qed

text \<open>
  Claim C7, as the code has it. The dispatcher does not inspect the prompt: with the
  selected backend enabled, the empty prompt is sent in one call as the content of the
  user message, and when the backend answers, the answer is returned.
\<close>

theorem empty_prompt_forwarded:
  "(useProviderOf this options = ''anthropic'' \<and> anthropic this \<noteq> None \<longrightarrow>
      snd (generateResponseWithProvider this '''' options) =
        [AnthropicCall
           \<lparr> a_model = resolvedModel this options, a_max_tokens = resolvedMaxTokens options,
             a_temperature = resolvedTemperature options, a_system = opt_systemPrompt options,
             a_messages = [\<lparr> role = ''user'', content = '''' \<rparr>] \<rparr>])
   \<and> (useProviderOf this options = ''openai'' \<and> openai this \<noteq> None \<longrightarrow>
      (\<exists>request. snd (generateResponseWithProvider this '''' options) = [OpenAICall request]
         \<and> last (o_messages request) = \<lparr> role = ''user'', content = '''' \<rparr>))
   \<and> (useProviderOf this options = ''anthropic'' \<and> anthropic this = Some clientA
      \<and> clientA (requestForAnthropic this '''' options) = Inr response
      \<and> a_content response = t # rest \<longrightarrow>
      fst (generateResponseWithProvider this '''' options) =
        Inr \<lparr> res_content = t, res_model = resolvedModel this options,
              res_usage = a_usage response, res_provider = ''anthropic'' \<rparr>)
   \<and> (useProviderOf this options = ''openai'' \<and> openai this = Some clientB
      \<and> clientB (requestForOpenAI this '''' options) = Inr reply
      \<and> o_choices reply = t # rest \<longrightarrow>
      fst (generateResponseWithProvider this '''' options) =
        Inr \<lparr> res_content = t, res_model = resolvedModel this options,
              res_usage = o_usage reply, res_provider = ''openai'' \<rparr>)"
proof (intro conjI impI)
  assume "useProviderOf this options = ''anthropic'' \<and> anthropic this \<noteq> None"
  then obtain client where A: "useProviderOf this options = ''anthropic''" "anthropic this = Some client"
    by auto
  show "snd (generateResponseWithProvider this '''' options) =
        [AnthropicCall (requestForAnthropic this '''' options)]"
    unfolding generate_anthropic [OF A] by (simp split: sum.splits list.splits)
next
  assume "useProviderOf this options = ''openai'' \<and> openai this \<noteq> None"
  then obtain client where B: "useProviderOf this options = ''openai''" "openai this = Some client"
    by auto
  have "snd (generateResponseWithProvider this '''' options) =
        [OpenAICall (requestForOpenAI this '''' options)]"
    unfolding generate_openai [OF B] by (simp split: sum.splits list.splits)
  then show "\<exists>request. snd (generateResponseWithProvider this '''' options) = [OpenAICall request]
         \<and> last (o_messages request) = \<lparr> role = ''user'', content = '''' \<rparr>"
    by simp
next
  assume h: "useProviderOf this options = ''anthropic'' \<and> anthropic this = Some clientA
      \<and> clientA (requestForAnthropic this '''' options) = Inr response
      \<and> a_content response = t # rest"
  then have A: "useProviderOf this options = ''anthropic''" "anthropic this = Some clientA"
    by simp_all
  from h show "fst (generateResponseWithProvider this '''' options) =
        Inr \<lparr> res_content = t, res_model = resolvedModel this options,
              res_usage = a_usage response, res_provider = ''anthropic'' \<rparr>"
    unfolding generate_anthropic [OF A] by simp
next
  assume h: "useProviderOf this options = ''openai'' \<and> openai this = Some clientB
      \<and> clientB (requestForOpenAI this '''' options) = Inr reply
      \<and> o_choices reply = t # rest"
  then have B: "useProviderOf this options = ''openai''" "openai this = Some clientB"
    by simp_all
  from h show "fst (generateResponseWithProvider this '''' options) =
        Inr \<lparr> res_content = t, res_model = resolvedModel this options,
              res_usage = o_usage reply, res_provider = ''openai'' \<rparr>"
    unfolding generate_openai [OF B] by simp
qed

text \<open>
  A run for C7: the empty prompt sent to OpenAI.
\<close>

theorem empty_prompt_forwarded_witness:
  "useProviderOf svcBoth (noOptions\<lparr> opt_model := Some ''gpt-4'' \<rparr>) = ''openai''
   \<and> openai svcBoth = Some okOpenAI
   \<and> okOpenAI (requestForOpenAI svcBoth '''' (noOptions\<lparr> opt_model := Some ''gpt-4'' \<rparr>))
        = Inr \<lparr> o_choices = [''ok''], o_usage = [(''total_tokens'', 2)] \<rparr>
   \<and> fst (generateResponseWithProvider svcBoth '''' (noOptions\<lparr> opt_model := Some ''gpt-4'' \<rparr>)) =
        Inr \<lparr> res_content = ''ok'', res_model = ''gpt-4'',
              res_usage = [(''total_tokens'', 2)], res_provider = ''openai'' \<rparr>
   \<and> (\<exists>request. snd (generateResponseWithProvider svcBoth ''''
                       (noOptions\<lparr> opt_model := Some ''gpt-4'' \<rparr>)) = [OpenAICall request]
         \<and> last (o_messages request) = \<lparr> role = ''user'', content = '''' \<rparr>)"
proof -
  have s: "useProviderOf svcBoth (noOptions\<lparr> opt_model := Some ''gpt-4'' \<rparr>) = ''openai''"
    by (simp add: svc_defs gen_defs)
  have c: "openai svcBoth = Some okOpenAI"
    by (simp add: svcBoth_def constructor_def testEnv_def)
  have r: "okOpenAI (requestForOpenAI svcBoth '''' (noOptions\<lparr> opt_model := Some ''gpt-4'' \<rparr>))
        = Inr \<lparr> o_choices = [''ok''], o_usage = [(''total_tokens'', 2)] \<rparr>"
    by (simp add: okOpenAI_def)
  from empty_prompt_forwarded [where this = svcBoth and options = "noOptions\<lparr> opt_model := Some ''gpt-4'' \<rparr>"
      and clientB = okOpenAI and t = "''ok''" and rest = "[]"
      and reply = "\<lparr> o_choices = [''ok''], o_usage = [(''total_tokens'', 2)] \<rparr>"] s c r
  show ?thesis
    by (simp add: resolvedModel_def noOptions_def)
qed

text \<open>
  Against C7 as stated: the empty prompt is sent to the backend and the call succeeds.
\<close>

theorem empty_prompt_succeeds:
  "generateResponseWithProvider svcBoth '''' noOptions =
     (Inr \<lparr> res_content = ''ok'', res_model = ''claude-3-sonnet-20240229'',
            res_usage = [(''input_tokens'', 1), (''output_tokens'', 1)],
            res_provider = ''anthropic'' \<rparr>,
      [AnthropicCall
         \<lparr> a_model = ''claude-3-sonnet-20240229'', a_max_tokens = 4000, a_temperature = 7 / 10,
           a_system = None, a_messages = [\<lparr> role = ''user'', content = '''' \<rparr>] \<rparr>])"
  by (simp add: svc_defs gen_defs)

text \<open>
  Claim C8. Passing \<open>maxTokens = 4000\<close> and \<open>temperature = 0.7\<close> or leaving both out
  gives the same outcome and the same backend call; and with \<open>model\<close>, \<open>maxTokens\<close> and
  \<open>temperature\<close> left out, every call made carries \<open>this.defaultModel\<close>, 4000 and 0.7.
\<close>

theorem defaults_idempotent:
  "generateResponseWithProvider this prompt
       (options\<lparr> opt_maxTokens := Some 4000, opt_temperature := Some (7 / 10) \<rparr>) =
     generateResponseWithProvider this prompt
       (options\<lparr> opt_maxTokens := None, opt_temperature := None \<rparr>)
   \<and> (\<forall>c \<in> set (snd (generateResponseWithProvider this prompt
                          (options\<lparr> opt_model := None, opt_maxTokens := None,
                                    opt_temperature := None \<rparr>))).
         callModel c = defaultModel this \<and> callMaxTokens c = 4000 \<and> callTemperature c = 7 / 10)"
proof
  show "generateResponseWithProvider this prompt
       (options\<lparr> opt_maxTokens := Some 4000, opt_temperature := Some (7 / 10) \<rparr>) =
     generateResponseWithProvider this prompt
       (options\<lparr> opt_maxTokens := None, opt_temperature := None \<rparr>)"
    by (simp add: generateResponseWithProvider_def resolvedModel_def resolvedMaxTokens_def
        resolvedTemperature_def resolvedProvider_def)
next
  let ?o = "options\<lparr> opt_model := None, opt_maxTokens := None, opt_temperature := None \<rparr>"
  show "\<forall>c \<in> set (snd (generateResponseWithProvider this prompt ?o)).
         callModel c = defaultModel this \<and> callMaxTokens c = 4000 \<and> callTemperature c = 7 / 10"
  proof (cases rule: generate_cases [of this ?o])
    case (A client)
    show ?thesis
      unfolding generate_anthropic [OF A]
      by (simp add: resolvedModel_def resolvedMaxTokens_def resolvedTemperature_def
          split: sum.splits list.splits)
  next
    case (B client)
    show ?thesis
      unfolding generate_openai [OF B]
      by (simp add: resolvedModel_def resolvedMaxTokens_def resolvedTemperature_def
          split: sum.splits list.splits)
  next
    case U
    show ?thesis
      unfolding generate_unavailable [OF U] by simp
  qed
qed

text \<open>
  A run for C8: no options against the explicit defaults.
\<close>

theorem defaults_idempotent_witness:
  "generateResponseWithProvider svcBoth ''hello''
       (noOptions\<lparr> opt_maxTokens := Some 4000, opt_temperature := Some (7 / 10) \<rparr>) =
     generateResponseWithProvider svcBoth ''hello'' noOptions
   \<and> snd (generateResponseWithProvider svcBoth ''hello'' noOptions) =
       [AnthropicCall
          \<lparr> a_model = ''claude-3-sonnet-20240229'', a_max_tokens = 4000, a_temperature = 7 / 10,
            a_system = None, a_messages = [\<lparr> role = ''user'', content = ''hello'' \<rparr>] \<rparr>]
   \<and> map callModel (snd (generateResponseWithProvider svcBoth ''hello'' noOptions))
       = [defaultModel svcBoth]
   \<and> map callMaxTokens (snd (generateResponseWithProvider svcBoth ''hello'' noOptions)) = [4000]
   \<and> map callTemperature (snd (generateResponseWithProvider svcBoth ''hello'' noOptions)) = [7 / 10]"
proof -
  have same: "noOptions\<lparr> opt_maxTokens := None, opt_temperature := None \<rparr> = noOptions"
    "noOptions\<lparr> opt_model := None, opt_maxTokens := None, opt_temperature := None \<rparr> = noOptions"
    by (simp_all add: noOptions_def)
  have run: "snd (generateResponseWithProvider svcBoth ''hello'' noOptions) =
       [AnthropicCall
          \<lparr> a_model = ''claude-3-sonnet-20240229'', a_max_tokens = 4000, a_temperature = 7 / 10,
            a_system = None, a_messages = [\<lparr> role = ''user'', content = ''hello'' \<rparr>] \<rparr>]"
    by (simp add: svc_defs gen_defs)
  from defaults_idempotent [of svcBoth "''hello''" noOptions] run show ?thesis
    unfolding same by simp
qed

text \<open>
  Claim C9, as the code has it. In \<open>auto\<close> mode a model of Anthropic's family fails
  when the Anthropic client is missing, and a model of OpenAI's family that is not also of
  Anthropic's family fails when the OpenAI client is missing; in both cases no backend is
  called, whether or not the other backend is enabled.
\<close>

theorem family_match_ignores_enablement:
  "(resolvedProvider options = ''auto'' \<and> familyA (resolvedModel this options)
      \<and> anthropic this = None \<longrightarrow>
      generateResponseWithProvider this prompt options =
        (Inl (JsError ''Error''
           ''LLM generation failed: Provider anthropic not available or not configured''), []))
   \<and> (resolvedProvider options = ''auto'' \<and> \<not> familyA (resolvedModel this options)
      \<and> familyB (resolvedModel this options) \<and> openai this = None \<longrightarrow>
      generateResponseWithProvider this prompt options =
        (Inl (JsError ''Error''
           ''LLM generation failed: Provider openai not available or not configured''), []))"
proof (intro conjI impI)
  assume h: "resolvedProvider options = ''auto'' \<and> familyA (resolvedModel this options)
      \<and> anthropic this = None"
  then have sel: "useProviderOf this options = ''anthropic''"
    by (simp add: selectProvider_def familyA_def)
  show "generateResponseWithProvider this prompt options =
        (Inl (JsError ''Error''
           ''LLM generation failed: Provider anthropic not available or not configured''), [])"
    using generate_unavailable [of this options prompt] h sel by simp
next
  assume h: "resolvedProvider options = ''auto'' \<and> \<not> familyA (resolvedModel this options)
      \<and> familyB (resolvedModel this options) \<and> openai this = None"
  then have sel: "useProviderOf this options = ''openai''"
    by (simp add: selectProvider_def familyA_def familyB_def)
  show "generateResponseWithProvider this prompt options =
        (Inl (JsError ''Error''
           ''LLM generation failed: Provider openai not available or not configured''), [])"
    using generate_unavailable [of this options prompt] h sel by simp
qed

text \<open>
  Runs for C9: each family with its backend missing and the other one enabled.
\<close>

theorem family_match_ignores_enablement_witness:
  "resolvedProvider (noOptions\<lparr> opt_model := Some ''claude-3-opus'' \<rparr>) = ''auto''
   \<and> familyA (resolvedModel svcOnlyB (noOptions\<lparr> opt_model := Some ''claude-3-opus'' \<rparr>))
   \<and> anthropic svcOnlyB = None \<and> openai svcOnlyB \<noteq> None
   \<and> generateResponseWithProvider svcOnlyB ''hello'' (noOptions\<lparr> opt_model := Some ''claude-3-opus'' \<rparr>) =
        (Inl (JsError ''Error''
           ''LLM generation failed: Provider anthropic not available or not configured''), [])
   \<and> resolvedProvider (noOptions\<lparr> opt_model := Some ''gpt-4'' \<rparr>) = ''auto''
   \<and> \<not> familyA (resolvedModel svcOnlyA (noOptions\<lparr> opt_model := Some ''gpt-4'' \<rparr>))
   \<and> familyB (resolvedModel svcOnlyA (noOptions\<lparr> opt_model := Some ''gpt-4'' \<rparr>))
   \<and> openai svcOnlyA = None \<and> anthropic svcOnlyA \<noteq> None
   \<and> generateResponseWithProvider svcOnlyA ''hello'' (noOptions\<lparr> opt_model := Some ''gpt-4'' \<rparr>) =
        (Inl (JsError ''Error''
           ''LLM generation failed: Provider openai not available or not configured''), [])"
proof -
  have a: "resolvedProvider (noOptions\<lparr> opt_model := Some ''claude-3-opus'' \<rparr>) = ''auto''
     \<and> familyA (resolvedModel svcOnlyB (noOptions\<lparr> opt_model := Some ''claude-3-opus'' \<rparr>))
     \<and> anthropic svcOnlyB = None \<and> openai svcOnlyB \<noteq> None"
    by (simp add: svc_defs resolvedProvider_def resolvedModel_def familyA_def)
  have b: "resolvedProvider (noOptions\<lparr> opt_model := Some ''gpt-4'' \<rparr>) = ''auto''
     \<and> \<not> familyA (resolvedModel svcOnlyA (noOptions\<lparr> opt_model := Some ''gpt-4'' \<rparr>))
     \<and> familyB (resolvedModel svcOnlyA (noOptions\<lparr> opt_model := Some ''gpt-4'' \<rparr>))
     \<and> openai svcOnlyA = None \<and> anthropic svcOnlyA \<noteq> None"
    by (simp add: svc_defs resolvedProvider_def resolvedModel_def familyA_def familyB_def)
  from family_match_ignores_enablement [of "noOptions\<lparr> opt_model := Some ''claude-3-opus'' \<rparr>" svcOnlyB "''hello''"]
    family_match_ignores_enablement [of "noOptions\<lparr> opt_model := Some ''gpt-4'' \<rparr>" svcOnlyA "''hello''"] a b
  show ?thesis by simp
qed

text \<open>
  Against C9 as stated: a model name with fragments of both families is matched as
  Anthropic's first, so with OpenAI missing and Anthropic enabled the call succeeds.
\<close>

theorem both_families_selects_anthropic:
  "resolvedProvider (noOptions\<lparr> opt_model := Some ''claude-gpt'' \<rparr>) = ''auto''
   \<and> familyB ''claude-gpt''
   \<and> openai svcOnlyA = None \<and> anthropic svcOnlyA \<noteq> None
   \<and> generateResponseWithProvider svcOnlyA ''hello'' (noOptions\<lparr> opt_model := Some ''claude-gpt'' \<rparr>) =
       (Inr \<lparr> res_content = ''ok'', res_model = ''claude-gpt'',
              res_usage = [(''input_tokens'', 1), (''output_tokens'', 1)],
              res_provider = ''anthropic'' \<rparr>,
        [AnthropicCall
           \<lparr> a_model = ''claude-gpt'', a_max_tokens = 4000, a_temperature = 7 / 10,
             a_system = None, a_messages = [\<lparr> role = ''user'', content = ''hello'' \<rparr>] \<rparr>])"
  by (simp add: svc_defs gen_defs familyB_def)

text \<open>
  Claim C10. With no global variable \<open>options\<close> (the program defines none), every call
  of \<open>analyzeCode\<close> throws \<open>ReferenceError: options is not defined\<close> and calls no
  backend, whatever the arguments and the clients.
\<close>

theorem analyzeCode_reference_error:
  "analyzeCode None this code analysisType =
     (Inl (JsError ''ReferenceError'' ''options is not defined''), [])"
  by (simp add: analyzeCode_def)

text \<open>
  A run for C10.
\<close>

theorem analyzeCode_reference_error_witness:
  "analyzeCode None svcBoth ''function f() {}'' ''security'' =
     (Inl (JsError ''ReferenceError'' ''options is not defined''), [])"
  using analyzeCode_reference_error [of svcBoth "''function f() {}''" "''security''"] by simp

end
